theory Spec2Isabelle
  imports Complex_Main
begin

section \<open>Data model of the electronics store (PPlab1\_Basharov.py)\<close>

text \<open>
  Python objects are reached through references, and several holders may share one
  object: an Order and a Warehouse's product list refer to the same Product, and
  \<open>get_products\<close> hands out the Warehouse's own list object. The model therefore keeps
  every object in an explicit heap and lets fields and list cells hold references.

  The fields of the classes carry the class name as a prefix, since \<open>name\<close> and
  \<open>quantity\<close> occur in several classes.

  Prices are Python floats. The program stores, copies and prints them but never
  computes with or compares them, so the model is parametric in the type \<open>'p\<close> of prices.
  Quantities are Python integers (unbounded), hence \<open>int\<close>.
\<close>

type_synonym ref = nat

record 'p product =
  product_name :: string
  product_price :: 'p
  product_quantity :: int

record worker =
  worker_name :: string
  worker_role :: string

record customer =
  customer_name :: string
  customer_email :: string

text \<open>\<open>warehouse_products\<close> and \<open>warehouse_workers\<close> are references to list objects.\<close>

record warehouse =
  warehouse_location :: string
  warehouse_products :: ref
  warehouse_workers :: ref

record order =
  order_customer :: ref
  order_product :: ref
  order_quantity :: int

record estore =
  estore_name :: string
  estore_warehouses :: ref
  estore_customers :: ref
  estore_orders :: ref
  estore_workers :: ref

subsection \<open>Exceptions\<close>

text \<open>
  The three classes derived from \<open>StoreError\<close>, and \<open>ValueError\<close>, which Python's
  \<open>list.remove\<close> raises for an absent element. The argument of an error is the name that
  the source interpolates into its message (the fixed text around it is left out).
\<close>

datatype error =
    ProductNotFoundError string
  | InsufficientStockError string
  | InvalidOrderError string
  | ValueError

fun is_StoreError :: "error \<Rightarrow> bool" where
  "is_StoreError ValueError = False"
| "is_StoreError _ = True"

subsection \<open>Documents handed to the serialisers\<close>

text \<open>
  \<open>data\<close> of \<open>save_to_json\<close> is a tree of dicts (in insertion order), lists, strings
  and numbers; \<open>root\<close> of \<open>save_to_xml\<close> is an ElementTree element: a tag, the attributes
  in keyword order, and the children.
\<close>

datatype 'p json =
    JString string
  | JInt int
  | JFloat 'p
  | JArray "'p json list"
  | JObject "(string \<times> 'p json) list"

datatype element =
  Element (tag: string) (attrib: "(string \<times> string) list") (children: "element list")

datatype 'p document = JsonDoc "'p json" | XmlDoc element

subsection \<open>The heap\<close>

text \<open>
  One store per class, a store of list objects (a Python list holds references), the
  files written so far, and the next free address \<open>lim\<close>.
\<close>

record 'p heap =
  product_objs :: "ref \<Rightarrow> 'p product"
  worker_objs :: "ref \<Rightarrow> worker"
  customer_objs :: "ref \<Rightarrow> customer"
  warehouse_objs :: "ref \<Rightarrow> warehouse"
  order_objs :: "ref \<Rightarrow> order"
  estore_objs :: "ref \<Rightarrow> estore"
  list_objs :: "ref \<Rightarrow> ref list"
  files :: "string \<Rightarrow> 'p document option"
  lim :: ref

text \<open>
  A method that can raise returns an outcome: \<open>(None, h')\<close> when it returns normally
  with the heap \<open>h'\<close>, and \<open>(Some e, h')\<close> when it raises \<open>e\<close>, \<open>h'\<close> being the heap at
  the moment of the raise. A method that cannot raise returns its value or the new heap.
\<close>

type_synonym 'p outcome = "error option \<times> 'p heap"

text \<open>Unallocated cells hold filler objects; \<open>p0\<close> is the filler price.\<close>

definition empty_heap :: "'p \<Rightarrow> 'p heap" where
  "empty_heap p0 =
     \<lparr>product_objs = (\<lambda>_. \<lparr>product_name = [], product_price = p0, product_quantity = 0\<rparr>),
      worker_objs = (\<lambda>_. \<lparr>worker_name = [], worker_role = []\<rparr>),
      customer_objs = (\<lambda>_. \<lparr>customer_name = [], customer_email = []\<rparr>),
      warehouse_objs = (\<lambda>_. \<lparr>warehouse_location = [], warehouse_products = 0,
                                warehouse_workers = 0\<rparr>),
      order_objs = (\<lambda>_. \<lparr>order_customer = 0, order_product = 0, order_quantity = 0\<rparr>),
      estore_objs = (\<lambda>_. \<lparr>estore_name = [], estore_warehouses = 0, estore_customers = 0,
                             estore_orders = 0, estore_workers = 0\<rparr>),
      list_objs = (\<lambda>_. []),
      files = (\<lambda>_. None),
      lim = 0\<rparr>"

subsection \<open>Python lists\<close>

text \<open>\<open>[]\<close> allocates a new list object.\<close>

definition new_list :: "'p heap \<Rightarrow> ref \<times> 'p heap" where
  "new_list h =
     (lim h, h\<lparr>list_objs := (list_objs h)(lim h := []), lim := Suc (lim h)\<rparr>)"

text \<open>\<open>l.append(x)\<close> mutates the list object \<open>l\<close>.\<close>

definition list_append :: "'p heap \<Rightarrow> ref \<Rightarrow> ref \<Rightarrow> 'p heap" where
  "list_append h l x = h\<lparr>list_objs := (list_objs h)(l := list_objs h l @ [x])\<rparr>"

text \<open>
  \<open>l.remove(x)\<close> deletes the first cell equal to \<open>x\<close> and raises \<open>ValueError\<close> when there
  is none. No class of the program defines \<open>__eq__\<close>, so equality of objects is identity,
  that is equality of references.
\<close>

definition list_remove :: "'p heap \<Rightarrow> ref \<Rightarrow> ref \<Rightarrow> 'p outcome" where
  "list_remove h l x =
     (if x \<in> set (list_objs h l)
      then (None, h\<lparr>list_objs := (list_objs h)(l := remove1 x (list_objs h l))\<rparr>)
      else (Some ValueError, h))"

section \<open>Constructors\<close>

text \<open>
  A constructor allocates the object at the next free address and returns its reference
  with the new heap. The default \<open>quantity = 0\<close> of \<open>Product\<close> is a caller passing \<open>0\<close>.
\<close>

definition Product_init :: "'p heap \<Rightarrow> string \<Rightarrow> 'p \<Rightarrow> int \<Rightarrow> ref \<times> 'p heap" where
  "Product_init h name price quantity =
     (lim h,
      h\<lparr>product_objs := (product_objs h)
           (lim h := \<lparr>product_name = name, product_price = price,
                      product_quantity = quantity\<rparr>),
        lim := Suc (lim h)\<rparr>)"

definition Worker_init :: "'p heap \<Rightarrow> string \<Rightarrow> string \<Rightarrow> ref \<times> 'p heap" where
  "Worker_init h name role =
     (lim h,
      h\<lparr>worker_objs := (worker_objs h)(lim h := \<lparr>worker_name = name, worker_role = role\<rparr>),
        lim := Suc (lim h)\<rparr>)"

definition Customer_init :: "'p heap \<Rightarrow> string \<Rightarrow> string \<Rightarrow> ref \<times> 'p heap" where
  "Customer_init h name email =
     (lim h,
      h\<lparr>customer_objs := (customer_objs h)
           (lim h := \<lparr>customer_name = name, customer_email = email\<rparr>),
        lim := Suc (lim h)\<rparr>)"

definition Warehouse_init :: "'p heap \<Rightarrow> string \<Rightarrow> ref \<times> 'p heap" where
  "Warehouse_init h location =
     (let (ps, h1) = new_list h;
          (ws, h2) = new_list h1
      in (lim h2,
          h2\<lparr>warehouse_objs := (warehouse_objs h2)
                (lim h2 := \<lparr>warehouse_location = location, warehouse_products = ps,
                            warehouse_workers = ws\<rparr>),
             lim := Suc (lim h2)\<rparr>))"

definition Order_init :: "'p heap \<Rightarrow> ref \<Rightarrow> ref \<Rightarrow> int \<Rightarrow> ref \<times> 'p heap" where
  "Order_init h customer product quantity =
     (lim h,
      h\<lparr>order_objs := (order_objs h)
           (lim h := \<lparr>order_customer = customer, order_product = product,
                      order_quantity = quantity\<rparr>),
        lim := Suc (lim h)\<rparr>)"

definition EStore_init :: "'p heap \<Rightarrow> string \<Rightarrow> ref \<times> 'p heap" where
  "EStore_init h name =
     (let (ws, h1) = new_list h;
          (cs, h2) = new_list h1;
          (os, h3) = new_list h2;
          (wrs, h4) = new_list h3
      in (lim h4,
          h4\<lparr>estore_objs := (estore_objs h4)
                (lim h4 := \<lparr>estore_name = name, estore_warehouses = ws,
                            estore_customers = cs, estore_orders = os,
                            estore_workers = wrs\<rparr>),
             lim := Suc (lim h4)\<rparr>))"


section \<open>Warehouse\<close>

definition add_product :: "'p heap \<Rightarrow> ref \<Rightarrow> ref \<Rightarrow> 'p heap" where
  "add_product h self product =
     list_append h (warehouse_products (warehouse_objs h self)) product"

text \<open>\<open>get_products\<close> returns \<open>self.products\<close>: the reference to the list object itself.\<close>

definition get_products :: "'p heap \<Rightarrow> ref \<Rightarrow> ref" where
  "get_products h self = warehouse_products (warehouse_objs h self)"

text \<open>
  The \<open>for p in self.products\<close> loop of \<open>update_product\<close>, over the cells still to
  visit. The body returns right after its assignment, and falling out of the loop raises.
\<close>

fun update_product_loop :: "'p heap \<Rightarrow> ref list \<Rightarrow> string \<Rightarrow> 'p \<Rightarrow> 'p outcome" where
  "update_product_loop h [] name new_price = (Some (ProductNotFoundError name), h)"
| "update_product_loop h (p # ps) name new_price =
     (if product_name (product_objs h p) = name
      then (None, h\<lparr>product_objs := (product_objs h)
                      (p := (product_objs h p)\<lparr>product_price := new_price\<rparr>)\<rparr>)
      else update_product_loop h ps name new_price)"

definition update_product :: "'p heap \<Rightarrow> ref \<Rightarrow> string \<Rightarrow> 'p \<Rightarrow> 'p outcome" where
  "update_product h self name new_price =
     update_product_loop h (list_objs h (warehouse_products (warehouse_objs h self)))
       name new_price"

text \<open>
  The loop of \<open>remove_product\<close>; \<open>l\<close> is the list object \<open>self.products\<close>, from which
  \<open>remove\<close> deletes, and the body returns right after the call.
\<close>

fun remove_product_loop :: "'p heap \<Rightarrow> ref \<Rightarrow> ref list \<Rightarrow> string \<Rightarrow> 'p outcome" where
  "remove_product_loop h l [] name = (Some (ProductNotFoundError name), h)"
| "remove_product_loop h l (p # ps) name =
     (if product_name (product_objs h p) = name
      then list_remove h l p
      else remove_product_loop h l ps name)"

definition remove_product :: "'p heap \<Rightarrow> ref \<Rightarrow> string \<Rightarrow> 'p outcome" where
  "remove_product h self name =
     remove_product_loop h (warehouse_products (warehouse_objs h self))
       (list_objs h (warehouse_products (warehouse_objs h self))) name"

definition Warehouse_add_worker :: "'p heap \<Rightarrow> ref \<Rightarrow> ref \<Rightarrow> 'p heap" where
  "Warehouse_add_worker h self worker =
     list_append h (warehouse_workers (warehouse_objs h self)) worker"

section \<open>Order\<close>

text \<open>
  \<open>process_order\<close>: raise when the requested quantity exceeds the stock of the
  referenced Product, otherwise subtract it from that Product in place.
\<close>

definition process_order :: "'p heap \<Rightarrow> ref \<Rightarrow> 'p outcome" where
  "process_order h self =
     (let p = order_product (order_objs h self);
          q = order_quantity (order_objs h self)
      in if q > product_quantity (product_objs h p)
         then (Some (InsufficientStockError (product_name (product_objs h p))), h)
         else (None, h\<lparr>product_objs := (product_objs h)
                         (p := (product_objs h p)
                            \<lparr>product_quantity := product_quantity (product_objs h p) - q\<rparr>)\<rparr>))"

text \<open>Calling \<open>process_order\<close> again after it has returned; a raise ends the sequence.\<close>

definition process_order_twice :: "'p heap \<Rightarrow> ref \<Rightarrow> 'p outcome" where
  "process_order_twice h self =
     (case process_order h self of
        (None, h1) \<Rightarrow> process_order h1 self
      | (Some e, h1) \<Rightarrow> (Some e, h1))"

text \<open>The stock of the Product an Order refers to: \<open>self.product.quantity\<close>.\<close>

definition stock :: "'p heap \<Rightarrow> ref \<Rightarrow> int" where
  "stock h self = product_quantity (product_objs h (order_product (order_objs h self)))"

section \<open>EStore\<close>

definition add_warehouse :: "'p heap \<Rightarrow> ref \<Rightarrow> ref \<Rightarrow> 'p heap" where
  "add_warehouse h self warehouse =
     list_append h (estore_warehouses (estore_objs h self)) warehouse"

definition add_customer :: "'p heap \<Rightarrow> ref \<Rightarrow> ref \<Rightarrow> 'p heap" where
  "add_customer h self customer =
     list_append h (estore_customers (estore_objs h self)) customer"

definition add_order :: "'p heap \<Rightarrow> ref \<Rightarrow> ref \<Rightarrow> 'p heap" where
  "add_order h self order = list_append h (estore_orders (estore_objs h self)) order"

definition EStore_add_worker :: "'p heap \<Rightarrow> ref \<Rightarrow> ref \<Rightarrow> 'p heap" where
  "EStore_add_worker h self worker =
     list_append h (estore_workers (estore_objs h self)) worker"

subsection \<open>Export to JSON\<close>

text \<open>
  The dict \<open>data\<close> that \<open>save_to_json\<close> builds with its comprehensions and hands to
  \<open>json.dump\<close>. Turning it into text is the work of the \<open>json\<close> library.
\<close>

definition save_to_json_data :: "'p heap \<Rightarrow> ref \<Rightarrow> 'p json" where
  "save_to_json_data h self =
     JObject
       [(''name'', JString (estore_name (estore_objs h self))),
        (''warehouses'', JArray
           (map (\<lambda>w. JObject
                  [(''location'', JString (warehouse_location (warehouse_objs h w))),
                   (''products'', JArray
                      (map (\<lambda>p. JObject
                             [(''name'', JString (product_name (product_objs h p))),
                              (''price'', JFloat (product_price (product_objs h p))),
                              (''quantity'', JInt (product_quantity (product_objs h p)))])
                         (list_objs h (warehouse_products (warehouse_objs h w))))),
                   (''workers'', JArray
                      (map (\<lambda>wr. JObject
                             [(''name'', JString (worker_name (worker_objs h wr))),
                              (''role'', JString (worker_role (worker_objs h wr)))])
                         (list_objs h (warehouse_workers (warehouse_objs h w)))))])
              (list_objs h (estore_warehouses (estore_objs h self))))),
        (''customers'', JArray
           (map (\<lambda>c. JObject
                  [(''name'', JString (customer_name (customer_objs h c))),
                   (''email'', JString (customer_email (customer_objs h c)))])
              (list_objs h (estore_customers (estore_objs h self))))),
        (''orders'', JArray
           (map (\<lambda>ord. JObject
                  [(''customer'', JString
                      (customer_name (customer_objs h (order_customer (order_objs h ord))))),
                   (''product'', JString
                      (product_name (product_objs h (order_product (order_objs h ord))))),
                   (''quantity'', JInt (order_quantity (order_objs h ord)))])
              (list_objs h (estore_orders (estore_objs h self)))))]"

text \<open>Opening the file for writing replaces whatever the file held.\<close>

definition save_to_json :: "'p heap \<Rightarrow> ref \<Rightarrow> string \<Rightarrow> 'p heap" where
  "save_to_json h self filename =
     h\<lparr>files := (files h)(filename \<mapsto> JsonDoc (save_to_json_data h self))\<rparr>"

subsection \<open>Export to XML\<close>

text \<open>
  \<open>str\<close> of a Python integer: a minus sign for a negative number, then the decimal
  digits, most significant first, with no leading zero.
\<close>

fun str_nat :: "nat \<Rightarrow> string" where
  "str_nat n =
     (if n < 10 then [''0123456789'' ! n]
      else str_nat (n div 10) @ [''0123456789'' ! (n mod 10)])"

declare str_nat.simps [simp del]

definition str_int :: "int \<Rightarrow> string" where
  "str_int i = (if i < 0 then CHR ''-'' # str_nat (nat (- i)) else str_nat (nat i))"








text \<open>
  \<open>ET.SubElement(parent, tag, **attrs)\<close> makes an element without children and appends
  it to the children of \<open>parent\<close>.
\<close>

definition SubElement :: "element \<Rightarrow> string \<Rightarrow> (string \<times> string) list \<Rightarrow> element" where
  "SubElement parent t attrs =
     Element (tag parent) (attrib parent) (children parent @ [Element t attrs []])"

text \<open>
  \<open>w_el\<close> is the element that the last \<open>SubElement(root, ...)\<close> appended to \<open>root\<close>: a
  change of \<open>w_el\<close> is a change of the last child of \<open>root\<close>.
\<close>

definition on_last_child :: "(element \<Rightarrow> element) \<Rightarrow> element \<Rightarrow> element" where
  "on_last_child f root_el =
     (if children root_el = [] then root_el
      else Element (tag root_el) (attrib root_el)
             (butlast (children root_el) @ [f (last (children root_el))]))"

text \<open>
  The loops of \<open>save_to_xml\<close>. \<open>str_price\<close> is \<open>str\<close> on the prices: \<open>str_float\<close> when
  the prices are Python floats.
\<close>

fun xml_products_loop ::
  "('p \<Rightarrow> string) \<Rightarrow> 'p heap \<Rightarrow> element \<Rightarrow> ref list \<Rightarrow> element" where
  "xml_products_loop str_price h root_el [] = root_el"
| "xml_products_loop str_price h root_el (p # ps) =
     xml_products_loop str_price h
       (on_last_child
          (\<lambda>w_el. SubElement w_el ''product''
             [(''name'', product_name (product_objs h p)),
              (''price'', str_price (product_price (product_objs h p))),
              (''quantity'', str_int (product_quantity (product_objs h p)))])
          root_el)
       ps"

fun xml_warehouses_loop ::
  "('p \<Rightarrow> string) \<Rightarrow> 'p heap \<Rightarrow> element \<Rightarrow> ref list \<Rightarrow> element" where
  "xml_warehouses_loop str_price h root_el [] = root_el"
| "xml_warehouses_loop str_price h root_el (w # ws) =
     xml_warehouses_loop str_price h
       (xml_products_loop str_price h
          (SubElement root_el ''warehouse''
             [(''location'', warehouse_location (warehouse_objs h w))])
          (list_objs h (warehouse_products (warehouse_objs h w))))
       ws"

definition save_to_xml_root :: "('p \<Rightarrow> string) \<Rightarrow> 'p heap \<Rightarrow> ref \<Rightarrow> element" where
  "save_to_xml_root str_price h self =
     xml_warehouses_loop str_price h
       (Element ''estore'' [(''name'', estore_name (estore_objs h self))] [])
       (list_objs h (estore_warehouses (estore_objs h self)))"

definition save_to_xml :: "('p \<Rightarrow> string) \<Rightarrow> 'p heap \<Rightarrow> ref \<Rightarrow> string \<Rightarrow> 'p heap" where
  "save_to_xml str_price h self filename =
     h\<lparr>files := (files h)(filename \<mapsto> XmlDoc (save_to_xml_root str_price h self))\<rparr>"

section \<open>Programs over the interface\<close>

text \<open>
  A call of a constructor or of a method, with its arguments, and the outcome of running
  it. Values that a call returns are references the caller can name, so only the heap is
  passed on. \<open>run\<close> performs calls in sequence and stops at the first raise.
\<close>

datatype 'p call =
    Call_EStore string
  | Call_Product string 'p int
  | Call_Worker string string
  | Call_Customer string string
  | Call_Warehouse string
  | Call_Order ref ref int
  | Call_add_warehouse ref ref
  | Call_add_customer ref ref
  | Call_add_order ref ref
  | Call_EStore_add_worker ref ref
  | Call_save_to_json ref string
  | Call_save_to_xml ref string
  | Call_add_product ref ref
  | Call_get_products ref
  | Call_update_product ref string 'p
  | Call_remove_product ref string
  | Call_Warehouse_add_worker ref ref
  | Call_process_order ref

fun exec :: "('p \<Rightarrow> string) \<Rightarrow> 'p heap \<Rightarrow> 'p call \<Rightarrow> 'p outcome" where
  "exec sp h (Call_EStore name) = (None, snd (EStore_init h name))"
| "exec sp h (Call_Product name price quantity) =
     (None, snd (Product_init h name price quantity))"
| "exec sp h (Call_Worker name role) = (None, snd (Worker_init h name role))"
| "exec sp h (Call_Customer name email) = (None, snd (Customer_init h name email))"
| "exec sp h (Call_Warehouse location) = (None, snd (Warehouse_init h location))"
| "exec sp h (Call_Order customer product quantity) =
     (None, snd (Order_init h customer product quantity))"
| "exec sp h (Call_add_warehouse self warehouse) = (None, add_warehouse h self warehouse)"
| "exec sp h (Call_add_customer self customer) = (None, add_customer h self customer)"
| "exec sp h (Call_add_order self order) = (None, add_order h self order)"
| "exec sp h (Call_EStore_add_worker self worker) = (None, EStore_add_worker h self worker)"
| "exec sp h (Call_save_to_json self filename) = (None, save_to_json h self filename)"
| "exec sp h (Call_save_to_xml self filename) = (None, save_to_xml sp h self filename)"
| "exec sp h (Call_add_product self product) = (None, add_product h self product)"
| "exec sp h (Call_get_products self) = (None, h)"
| "exec sp h (Call_update_product self name new_price) = update_product h self name new_price"
| "exec sp h (Call_remove_product self name) = remove_product h self name"
| "exec sp h (Call_Warehouse_add_worker self worker) =
     (None, Warehouse_add_worker h self worker)"
| "exec sp h (Call_process_order self) = process_order h self"

fun run :: "('p \<Rightarrow> string) \<Rightarrow> 'p heap \<Rightarrow> 'p call list \<Rightarrow> 'p outcome" where
  "run sp h [] = (None, h)"
| "run sp h (c # cs) =
     (case exec sp h c of
        (None, h') \<Rightarrow> run sp h' cs
      | (Some e, h') \<Rightarrow> (Some e, h'))"

section \<open>Observations\<close>

text \<open>The sequence of Products of a Warehouse: the content of its list object.\<close>

definition products_of :: "'p heap \<Rightarrow> ref \<Rightarrow> ref list" where
  "products_of h w = list_objs h (warehouse_products (warehouse_objs h w))"

text \<open>The first Product in a list whose name is \<open>name\<close>, if any.\<close>

definition first_named :: "'p heap \<Rightarrow> string \<Rightarrow> ref list \<Rightarrow> ref option" where
  "first_named h name xs = List.find (\<lambda>r. product_name (product_objs h r) = name) xs"

text \<open>Reading a JSON tree along a path of keys and indices.\<close>

datatype step = Key string | Idx nat

fun json_step :: "'p json \<Rightarrow> step \<Rightarrow> 'p json option" where
  "json_step (JObject kvs) (Key k) = map_of kvs k"
| "json_step (JArray xs) (Idx i) = (if i < length xs then Some (xs ! i) else None)"
| "json_step _ _ = None"

fun json_at :: "'p json \<Rightarrow> step list \<Rightarrow> 'p json option" where
  "json_at j [] = Some j"
| "json_at j (s # path) =
     (case json_step j s of None \<Rightarrow> None | Some v \<Rightarrow> json_at v path)"

fun json_keys :: "'p json option \<Rightarrow> string list option" where
  "json_keys (Some (JObject kvs)) = Some (map fst kvs)"
| "json_keys _ = None"

fun json_len :: "'p json option \<Rightarrow> nat option" where
  "json_len (Some (JArray xs)) = Some (length xs)"
| "json_len _ = None"








subsection \<open>The markup document as the specification words it\<close>





section \<open>The scenario of the main program\<close>

text \<open>
  The objects that the main program builds before it processes its order. The prices,
  the stock of the laptop and the quantity of the order are parameters (75000.0,
  45000.0, 10 and 1 in the source); \<open>p0\<close> is the filler price of the empty heap. Names
  are transliterated.
\<close>

record 'p scenario =
  sc_store :: ref
  sc_warehouse :: ref
  sc_laptop :: ref
  sc_phone :: ref
  sc_worker :: ref
  sc_customer :: ref
  sc_order :: ref
  sc_heap :: "'p heap"

definition main_setup_with :: "'p \<Rightarrow> 'p \<Rightarrow> 'p \<Rightarrow> int \<Rightarrow> int \<Rightarrow> 'p scenario" where
  "main_setup_with p0 laptop_price phone_price laptop_stock wanted =
     (let (store, h) = EStore_init (empty_heap p0) ''TechStore'';
          (warehouse, h) = Warehouse_init h ''Moscow'';
          (laptop, h) = Product_init h ''Laptop'' laptop_price laptop_stock;
          (phone, h) = Product_init h ''Phone'' phone_price 15;
          h = add_product h warehouse laptop;
          h = add_product h warehouse phone;
          (worker, h) = Worker_init h ''Ivan'' ''warehouse manager'';
          h = Warehouse_add_worker h warehouse worker;
          h = add_warehouse h store warehouse;
          (customer, h) = Customer_init h ''Petr'' ''petr@mail.ru'';
          h = add_customer h store customer;
          (order, h) = Order_init h customer laptop wanted;
          h = add_order h store order
      in \<lparr>sc_store = store, sc_warehouse = warehouse, sc_laptop = laptop,
          sc_phone = phone, sc_worker = worker, sc_customer = customer,
          sc_order = order, sc_heap = h\<rparr>)"

text \<open>The scenario with the prices as real numbers, for what does not print them.\<close>

definition main_setup :: "int \<Rightarrow> int \<Rightarrow> real scenario" where
  "main_setup laptop_stock wanted = main_setup_with 0 75000 45000 laptop_stock wanted"


section \<open>The scenario, evaluated\<close>

text \<open>
  The references and the heap that the main program has built before it processes the
  order. The constructors and appends run one after the other on evaluated heaps.
\<close>

lemmas init_defs = EStore_init_def Warehouse_init_def Product_init_def Worker_init_def
  Customer_init_def Order_init_def new_list_def empty_heap_def

lemmas add_defs = add_product_def add_warehouse_def add_customer_def add_order_def
  Warehouse_add_worker_def EStore_add_worker_def list_append_def

lemma main_setup_with_eval:
  "main_setup_with p0 laptop_price phone_price s q =
   \<lparr>sc_store = 4, sc_warehouse = 7, sc_laptop = 8, sc_phone = 9, sc_worker = 10,
      sc_customer = 11, sc_order = 12,
      sc_heap =
        \<lparr>product_objs =
           (\<lambda>_. \<lparr>product_name = [], product_price = p0, product_quantity = 0\<rparr>)
           (8 := \<lparr>product_name = ''Laptop'', product_price = laptop_price, product_quantity = s\<rparr>,
            9 := \<lparr>product_name = ''Phone'', product_price = phone_price, product_quantity = 15\<rparr>),
         worker_objs =
           (\<lambda>_. \<lparr>worker_name = [], worker_role = []\<rparr>)
           (10 := \<lparr>worker_name = ''Ivan'', worker_role = ''warehouse manager''\<rparr>),
         customer_objs =
           (\<lambda>_. \<lparr>customer_name = [], customer_email = []\<rparr>)
           (11 := \<lparr>customer_name = ''Petr'', customer_email = ''petr@mail.ru''\<rparr>),
         warehouse_objs =
           (\<lambda>_. \<lparr>warehouse_location = [], warehouse_products = 0, warehouse_workers = 0\<rparr>)
           (7 := \<lparr>warehouse_location = ''Moscow'', warehouse_products = 5,
                   warehouse_workers = 6\<rparr>),
         order_objs =
           (\<lambda>_. \<lparr>order_customer = 0, order_product = 0, order_quantity = 0\<rparr>)
           (12 := \<lparr>order_customer = 11, order_product = 8, order_quantity = q\<rparr>),
         estore_objs =
           (\<lambda>_. \<lparr>estore_name = [], estore_warehouses = 0, estore_customers = 0,
                  estore_orders = 0, estore_workers = 0\<rparr>)
           (4 := \<lparr>estore_name = ''TechStore'', estore_warehouses = 0, estore_customers = 1,
                   estore_orders = 2, estore_workers = 3\<rparr>),
         list_objs =
           (\<lambda>_. [])(3 := [], 5 := [8, 9], 6 := [10], 0 := [7], 1 := [11], 2 := [12]),
         files = (\<lambda>_. None),
         lim = 13\<rparr>\<rparr>"
  by (simp add: main_setup_with_def init_defs add_defs Let_def eval_nat_numeral
        cong: let_weak_cong)

lemma main_setup_eval:
  "main_setup s q =
   \<lparr>sc_store = 4, sc_warehouse = 7, sc_laptop = 8, sc_phone = 9, sc_worker = 10,
      sc_customer = 11, sc_order = 12,
      sc_heap =
        \<lparr>product_objs =
           (\<lambda>_. \<lparr>product_name = [], product_price = 0, product_quantity = 0\<rparr>)
           (8 := \<lparr>product_name = ''Laptop'', product_price = 75000, product_quantity = s\<rparr>,
            9 := \<lparr>product_name = ''Phone'', product_price = 45000, product_quantity = 15\<rparr>),
         worker_objs =
           (\<lambda>_. \<lparr>worker_name = [], worker_role = []\<rparr>)
           (10 := \<lparr>worker_name = ''Ivan'', worker_role = ''warehouse manager''\<rparr>),
         customer_objs =
           (\<lambda>_. \<lparr>customer_name = [], customer_email = []\<rparr>)
           (11 := \<lparr>customer_name = ''Petr'', customer_email = ''petr@mail.ru''\<rparr>),
         warehouse_objs =
           (\<lambda>_. \<lparr>warehouse_location = [], warehouse_products = 0, warehouse_workers = 0\<rparr>)
           (7 := \<lparr>warehouse_location = ''Moscow'', warehouse_products = 5,
                   warehouse_workers = 6\<rparr>),
         order_objs =
           (\<lambda>_. \<lparr>order_customer = 0, order_product = 0, order_quantity = 0\<rparr>)
           (12 := \<lparr>order_customer = 11, order_product = 8, order_quantity = q\<rparr>),
         estore_objs =
           (\<lambda>_. \<lparr>estore_name = [], estore_warehouses = 0, estore_customers = 0,
                  estore_orders = 0, estore_workers = 0\<rparr>)
           (4 := \<lparr>estore_name = ''TechStore'', estore_warehouses = 0, estore_customers = 1,
                   estore_orders = 2, estore_workers = 3\<rparr>),
         list_objs =
           (\<lambda>_. [])(3 := [], 5 := [8, 9], 6 := [10], 0 := [7], 1 := [11], 2 := [12]),
         files = (\<lambda>_. None),
         lim = 13\<rparr>\<rparr>"
  by (simp add: main_setup_def main_setup_with_eval)

section \<open>Order fulfilment\<close>

lemma process_order_frame:
  "order_objs (snd (process_order h self)) = order_objs h"
  by (simp add: process_order_def Let_def)

text \<open>
  C1. With \<open>q\<close> the quantity of the Order and \<open>s\<close> the quantity of the Product it
  refers to: if \<open>q \<le> s\<close>, \<open>process_order\<close> returns normally and the Product's quantity is
  \<open>s - q\<close>; if \<open>q > s\<close>, it raises \<open>InsufficientStockError\<close> (with the Product's name) and
  the heap, hence the Product's quantity, is as before.
\<close>

theorem process_order_spec:
  "(order_quantity (order_objs h self) \<le> stock h self \<longrightarrow>
      fst (process_order h self) = None \<and>
      stock (snd (process_order h self)) self =
        stock h self - order_quantity (order_objs h self)) \<and>
   (stock h self < order_quantity (order_objs h self) \<longrightarrow>
      process_order h self =
        (Some (InsufficientStockError
                 (product_name (product_objs h (order_product (order_objs h self))))), h) \<and>
      stock (snd (process_order h self)) self = stock h self)"
  by (simp add: process_order_def stock_def Let_def)

theorem process_order_spec_witness:
  "fst (process_order (sc_heap (main_setup 10 1)) (sc_order (main_setup 10 1))) = None \<and>
   stock (snd (process_order (sc_heap (main_setup 10 1)) (sc_order (main_setup 10 1))))
     (sc_order (main_setup 10 1)) = 9 \<and>
   fst (process_order (sc_heap (main_setup 10 11)) (sc_order (main_setup 10 11))) =
     Some (InsufficientStockError ''Laptop'') \<and>
   stock (snd (process_order (sc_heap (main_setup 10 11)) (sc_order (main_setup 10 11))))
     (sc_order (main_setup 10 11)) = 10"
  using process_order_spec [of "sc_heap (main_setup 10 1)" "sc_order (main_setup 10 1)"]
    process_order_spec [of "sc_heap (main_setup 10 11)" "sc_order (main_setup 10 11)"]
  by (simp add: main_setup_eval stock_def)

text \<open>
  C4, as amended. Two calls of \<open>process_order\<close> in a row both return normally exactly
  when \<open>q \<le> s\<close> and \<open>2 * q \<le> s\<close>, and then the stock is \<open>s - 2 * q\<close>: nothing guards
  against fulfilling an Order again.
\<close>

theorem process_order_twice_spec:
  "(fst (process_order_twice h self) = None \<longleftrightarrow>
      order_quantity (order_objs h self) \<le> stock h self \<and>
      2 * order_quantity (order_objs h self) \<le> stock h self) \<and>
   (order_quantity (order_objs h self) \<le> stock h self \<and>
    2 * order_quantity (order_objs h self) \<le> stock h self \<longrightarrow>
      fst (process_order h self) = None \<and>
      fst (process_order (snd (process_order h self)) self) = None \<and>
      stock (snd (process_order_twice h self)) self =
        stock h self - 2 * order_quantity (order_objs h self))"
  by (simp add: process_order_twice_def process_order_def stock_def Let_def)

theorem process_order_twice_spec_witness:
  "fst (process_order_twice (sc_heap (main_setup 10 1)) (sc_order (main_setup 10 1))) = None \<and>
   stock (snd (process_order_twice (sc_heap (main_setup 10 1)) (sc_order (main_setup 10 1))))
     (sc_order (main_setup 10 1)) = 8"
  using process_order_twice_spec [of "sc_heap (main_setup 10 1)" "sc_order (main_setup 10 1)"]
  by (simp add: main_setup_eval stock_def)

text \<open>
  The condition \<open>2 * q \<le> s\<close> alone is not enough when the stock is negative: with
  \<open>q = -1\<close> and \<open>s = -2\<close> it holds and the first call already raises.
\<close>

theorem process_order_twice_counterexample:
  "2 * order_quantity
         (order_objs (sc_heap (main_setup (- 2) (- 1))) (sc_order (main_setup (- 2) (- 1))))
     \<le> stock (sc_heap (main_setup (- 2) (- 1))) (sc_order (main_setup (- 2) (- 1))) \<and>
   fst (process_order_twice (sc_heap (main_setup (- 2) (- 1)))
          (sc_order (main_setup (- 2) (- 1)))) =
     Some (InsufficientStockError ''Laptop'')"
  by (simp add: main_setup_eval process_order_twice_def process_order_def stock_def Let_def)

text \<open>
  C5. A Product whose quantity is not negative before \<open>process_order\<close> is called has a
  quantity that is not negative in the heap the call leaves, whether it returns normally
  or raises. This holds for the Product of the Order and for every other Product.
\<close>

theorem process_order_nonnegative:
  "0 \<le> product_quantity (product_objs h r) \<Longrightarrow>
   0 \<le> product_quantity (product_objs (snd (process_order h self)) r)"
  by (simp add: process_order_def Let_def)

theorem process_order_nonnegative_witness:
  "0 \<le> product_quantity
          (product_objs (snd (process_order (sc_heap (main_setup 10 10))
                                (sc_order (main_setup 10 10)))) 8) \<and>
   0 \<le> product_quantity
          (product_objs (snd (process_order (sc_heap (main_setup 10 11))
                                (sc_order (main_setup 10 11)))) 8)"
  using process_order_nonnegative [of "sc_heap (main_setup 10 10)" 8 "sc_order (main_setup 10 10)"]
    process_order_nonnegative [of "sc_heap (main_setup 10 11)" 8 "sc_order (main_setup 10 11)"]
  by (simp add: main_setup_eval)

text \<open>
  C10. Neither the constructor of Order nor \<open>process_order\<close> checks that the quantity is
  positive. The constructor stores any \<open>q\<close>. For a Product with quantity \<open>s \<ge> 0\<close> and
  \<open>q \<le> 0\<close>, \<open>process_order\<close> on the new Order returns normally and leaves the quantity
  \<open>s - q\<close>: \<open>s\<close> when \<open>q = 0\<close>, more than \<open>s\<close> when \<open>q < 0\<close>.
\<close>

theorem order_quantity_not_validated:
  assumes "0 \<le> product_quantity (product_objs h p)" and "q \<le> 0"
  shows "order_quantity (order_objs (snd (Order_init h c p q)) (fst (Order_init h c p q))) = q \<and>
         order_product (order_objs (snd (Order_init h c p q)) (fst (Order_init h c p q))) = p \<and>
         fst (process_order (snd (Order_init h c p q)) (fst (Order_init h c p q))) = None \<and>
         product_quantity
           (product_objs
              (snd (process_order (snd (Order_init h c p q)) (fst (Order_init h c p q)))) p) =
           product_quantity (product_objs h p) - q \<and>
         (q = 0 \<longrightarrow>
            product_quantity
              (product_objs
                 (snd (process_order (snd (Order_init h c p q)) (fst (Order_init h c p q)))) p) =
              product_quantity (product_objs h p)) \<and>
         (q < 0 \<longrightarrow>
            product_quantity (product_objs h p) <
            product_quantity
              (product_objs
                 (snd (process_order (snd (Order_init h c p q)) (fst (Order_init h c p q)))) p))"
  using assms by (simp add: Order_init_def process_order_def Let_def)

theorem order_quantity_not_validated_witness:
  "fst (process_order (snd (Order_init (sc_heap (main_setup 10 1)) 11 8 (- 3)))
          (fst (Order_init (sc_heap (main_setup 10 1)) 11 8 (- 3)))) = None \<and>
   product_quantity
     (product_objs
        (snd (process_order (snd (Order_init (sc_heap (main_setup 10 1)) 11 8 (- 3)))
                (fst (Order_init (sc_heap (main_setup 10 1)) 11 8 (- 3))))) 8) = 13 \<and>
   fst (process_order (snd (Order_init (sc_heap (main_setup 10 1)) 11 8 0))
          (fst (Order_init (sc_heap (main_setup 10 1)) 11 8 0))) = None \<and>
   product_quantity
     (product_objs
        (snd (process_order (snd (Order_init (sc_heap (main_setup 10 1)) 11 8 0))
                (fst (Order_init (sc_heap (main_setup 10 1)) 11 8 0)))) 8) = 10"
  using order_quantity_not_validated [of "sc_heap (main_setup 10 1)" 8 "- 3" 11]
    order_quantity_not_validated [of "sc_heap (main_setup 10 1)" 8 0 11]
  by (simp add: main_setup_eval)

section \<open>Warehouse\<close>

subsection \<open>The first Product with a given name\<close>

lemma first_named_at:
  assumes "i < length xs" and "product_name (product_objs h (xs ! i)) = name"
    and "\<forall>j<i. product_name (product_objs h (xs ! j)) \<noteq> name"
  shows "first_named h name xs = Some (xs ! i)"
  unfolding first_named_def find_Some_iff using assms by blast

lemma first_named_none:
  assumes "\<forall>r\<in>set xs. product_name (product_objs h r) \<noteq> name"
  shows "first_named h name xs = None"
  unfolding first_named_def find_None_iff using assms by blast

lemma first_named_in:
  "first_named h name xs = Some r \<Longrightarrow> r \<in> set xs"
  unfolding first_named_def find_Some_iff by auto

text \<open>
  Removing the reference found at the first matching position removes that position:
  no earlier cell holds the same reference, since an earlier cell with the same object
  would have matched first.
\<close>

lemma remove1_first_match:
  assumes "i < length xs" and "product_name (product_objs h (xs ! i)) = name"
    and "\<forall>j<i. product_name (product_objs h (xs ! j)) \<noteq> name"
  shows "remove1 (xs ! i) xs = take i xs @ drop (Suc i) xs"
proof -
  have notin: "xs ! i \<notin> set (take i xs)"
  proof
    assume "xs ! i \<in> set (take i xs)"
    then obtain j where j: "j < length (take i xs)" "take i xs ! j = xs ! i"
      by (auto simp: in_set_conv_nth)
    then have "j < i" and "xs ! j = xs ! i" by simp_all
    with assms(2,3) show False by metis
  qed
  have "xs = take i xs @ xs ! i # drop (Suc i) xs"
    using assms(1) by (simp add: id_take_nth_drop)
  then have "remove1 (xs ! i) xs = remove1 (xs ! i) (take i xs @ xs ! i # drop (Suc i) xs)"
    by simp
  also have "\<dots> = take i xs @ drop (Suc i) xs"
    using notin by (simp add: remove1_append)
  finally show ?thesis .
qed

subsection \<open>The loops\<close>

lemma update_product_loop_find:
  "update_product_loop h xs name x =
     (case first_named h name xs of
        None \<Rightarrow> (Some (ProductNotFoundError name), h)
      | Some r \<Rightarrow>
          (None, h\<lparr>product_objs := (product_objs h)
                       (r := (product_objs h r)\<lparr>product_price := x\<rparr>)\<rparr>))"
  by (induction xs) (simp_all add: first_named_def)

lemma remove_product_loop_find:
  "remove_product_loop h l xs name =
     (case first_named h name xs of
        None \<Rightarrow> (Some (ProductNotFoundError name), h)
      | Some r \<Rightarrow> list_remove h l r)"
  by (induction xs) (simp_all add: first_named_def)

text \<open>
  C2. Let \<open>xs\<close> be the Products of the Warehouse. If position \<open>i\<close> is the first whose
  Product has the given name, \<open>update_product\<close> returns normally, that Product has the
  new price and its old quantity and name, every other Product object is as before, and
  so is the rest of the heap. If no Product of \<open>xs\<close> has the name, it raises
  \<open>ProductNotFoundError\<close> and the heap is as before.
\<close>

theorem update_product_spec:
  "(\<forall>i. i < length (products_of h self) \<and>
        product_name (product_objs h (products_of h self ! i)) = name \<and>
        (\<forall>j<i. product_name (product_objs h (products_of h self ! j)) \<noteq> name) \<longrightarrow>
      fst (update_product h self name new_price) = None \<and>
      product_price (product_objs (snd (update_product h self name new_price))
                       (products_of h self ! i)) = new_price \<and>
      product_quantity (product_objs (snd (update_product h self name new_price))
                          (products_of h self ! i)) =
        product_quantity (product_objs h (products_of h self ! i)) \<and>
      product_name (product_objs (snd (update_product h self name new_price))
                      (products_of h self ! i)) = name \<and>
      (\<forall>r. r \<noteq> products_of h self ! i \<longrightarrow>
           product_objs (snd (update_product h self name new_price)) r = product_objs h r) \<and>
      (snd (update_product h self name new_price))\<lparr>product_objs := product_objs h\<rparr> = h) \<and>
   ((\<forall>r\<in>set (products_of h self). product_name (product_objs h r) \<noteq> name) \<longrightarrow>
      update_product h self name new_price = (Some (ProductNotFoundError name), h))"
proof (intro conjI allI impI)
  fix i
  assume a: "i < length (products_of h self) \<and>
        product_name (product_objs h (products_of h self ! i)) = name \<and>
        (\<forall>j<i. product_name (product_objs h (products_of h self ! j)) \<noteq> name)"
  then have f: "first_named h name (products_of h self) = Some (products_of h self ! i)"
    by (simp add: first_named_at)
  have u: "update_product h self name new_price =
        (None, h\<lparr>product_objs := (product_objs h)
                     (products_of h self ! i :=
                        (product_objs h (products_of h self ! i))\<lparr>product_price := new_price\<rparr>)\<rparr>)"
    using f by (simp add: update_product_def update_product_loop_find products_of_def)
  show "fst (update_product h self name new_price) = None" by (simp add: u)
  show "product_price (product_objs (snd (update_product h self name new_price))
                       (products_of h self ! i)) = new_price" by (simp add: u)
  show "product_quantity (product_objs (snd (update_product h self name new_price))
                          (products_of h self ! i)) =
        product_quantity (product_objs h (products_of h self ! i))" by (simp add: u)
  show "product_name (product_objs (snd (update_product h self name new_price))
                      (products_of h self ! i)) = name" using a by (simp add: u)
  show "(snd (update_product h self name new_price))\<lparr>product_objs := product_objs h\<rparr> = h"
    by (simp add: u)
  fix r
  assume "r \<noteq> products_of h self ! i"
  then show "product_objs (snd (update_product h self name new_price)) r = product_objs h r"
    by (simp add: u)
next
  assume "\<forall>r\<in>set (products_of h self). product_name (product_objs h r) \<noteq> name"
  then have "first_named h name (products_of h self) = None"
    by (rule first_named_none)
  then show "update_product h self name new_price = (Some (ProductNotFoundError name), h)"
    by (simp add: update_product_def update_product_loop_find products_of_def)
qed

theorem update_product_spec_witness:
  "fst (update_product (sc_heap (main_setup 10 1)) 7 ''Phone'' 39990) = None \<and>
   product_price (product_objs (snd (update_product (sc_heap (main_setup 10 1)) 7 ''Phone'' 39990)) 9)
     = 39990 \<and>
   product_quantity
     (product_objs (snd (update_product (sc_heap (main_setup 10 1)) 7 ''Phone'' 39990)) 9) = 15 \<and>
   product_objs (snd (update_product (sc_heap (main_setup 10 1)) 7 ''Phone'' 39990)) 8 =
     product_objs (sc_heap (main_setup 10 1)) 8 \<and>
   update_product (sc_heap (main_setup 10 1)) 7 ''Tablet'' 39990 =
     (Some (ProductNotFoundError ''Tablet''), sc_heap (main_setup 10 1))"
proof -
  let ?h = "sc_heap (main_setup 10 1)"
  have xs: "products_of ?h 7 = [8, 9]"
    by (simp add: main_setup_eval products_of_def)
  have n8: "product_name (product_objs ?h 8) = ''Laptop''"
    and n9: "product_name (product_objs ?h 9) = ''Phone''"
    and q9: "product_quantity (product_objs ?h 9) = 15"
    by (simp_all add: main_setup_eval)
  have "1 < length (products_of ?h 7) \<and>
        product_name (product_objs ?h (products_of ?h 7 ! 1)) = ''Phone'' \<and>
        (\<forall>j<1. product_name (product_objs ?h (products_of ?h 7 ! j)) \<noteq> ''Phone'')"
    by (simp add: xs n8 n9)
  moreover have "\<forall>r\<in>set (products_of ?h 7). product_name (product_objs ?h r) \<noteq> ''Tablet''"
    by (simp add: xs n8 n9)
  ultimately show ?thesis
    using update_product_spec [of ?h 7 "''Phone''" 39990]
      update_product_spec [of ?h 7 "''Tablet''" 39990]
    by (auto simp: xs q9)
qed

text \<open>
  C3. Let \<open>xs\<close> be the Products of the Warehouse. If position \<open>i\<close> is the first whose
  Product has the given name, \<open>remove_product\<close> returns normally and the list holds
  the cells before \<open>i\<close> followed by the cells after \<open>i\<close>, in their order; nothing else in
  the heap changes. If no Product of \<open>xs\<close> has the name, it raises
  \<open>ProductNotFoundError\<close> and the heap, hence the list and its length, is as before.
\<close>

theorem remove_product_spec:
  "(\<forall>i. i < length (products_of h self) \<and>
        product_name (product_objs h (products_of h self ! i)) = name \<and>
        (\<forall>j<i. product_name (product_objs h (products_of h self ! j)) \<noteq> name) \<longrightarrow>
      fst (remove_product h self name) = None \<and>
      products_of (snd (remove_product h self name)) self =
        take i (products_of h self) @ drop (Suc i) (products_of h self) \<and>
      snd (remove_product h self name) =
        h\<lparr>list_objs := (list_objs h)
             (warehouse_products (warehouse_objs h self) :=
                take i (products_of h self) @ drop (Suc i) (products_of h self))\<rparr>) \<and>
   ((\<forall>r\<in>set (products_of h self). product_name (product_objs h r) \<noteq> name) \<longrightarrow>
      remove_product h self name = (Some (ProductNotFoundError name), h) \<and>
      length (products_of (snd (remove_product h self name)) self) =
        length (products_of h self))"
proof (intro conjI allI impI)
  fix i
  assume a: "i < length (products_of h self) \<and>
        product_name (product_objs h (products_of h self ! i)) = name \<and>
        (\<forall>j<i. product_name (product_objs h (products_of h self ! j)) \<noteq> name)"
  then have f: "first_named h name (products_of h self) = Some (products_of h self ! i)"
    by (simp add: first_named_at)
  have m: "products_of h self ! i \<in> set (products_of h self)"
    using a by simp
  have r1: "remove1 (products_of h self ! i) (products_of h self) =
            take i (products_of h self) @ drop (Suc i) (products_of h self)"
    using a remove1_first_match [of i "products_of h self" h name] by blast
  have u: "remove_product h self name =
        (None, h\<lparr>list_objs := (list_objs h)
             (warehouse_products (warehouse_objs h self) :=
                take i (products_of h self) @ drop (Suc i) (products_of h self))\<rparr>)"
    using f m r1
    by (simp add: remove_product_def remove_product_loop_find list_remove_def
          products_of_def)
  show "fst (remove_product h self name) = None" by (simp add: u)
  show "products_of (snd (remove_product h self name)) self =
        take i (products_of h self) @ drop (Suc i) (products_of h self)"
    by (simp add: u products_of_def)
  show "snd (remove_product h self name) =
        h\<lparr>list_objs := (list_objs h)
             (warehouse_products (warehouse_objs h self) :=
                take i (products_of h self) @ drop (Suc i) (products_of h self))\<rparr>"
    by (simp add: u)
next
  assume n: "\<forall>r\<in>set (products_of h self). product_name (product_objs h r) \<noteq> name"
  then have "first_named h name (products_of h self) = None"
    by (rule first_named_none)
  then show u: "remove_product h self name = (Some (ProductNotFoundError name), h)"
    by (simp add: remove_product_def remove_product_loop_find products_of_def)
  show "length (products_of (snd (remove_product h self name)) self) =
        length (products_of h self)"
    by (simp add: u)
qed

theorem remove_product_spec_witness:
  "fst (remove_product (sc_heap (main_setup 10 1)) 7 ''Laptop'') = None \<and>
   products_of (snd (remove_product (sc_heap (main_setup 10 1)) 7 ''Laptop'')) 7 = [9] \<and>
   remove_product (sc_heap (main_setup 10 1)) 7 ''Tablet'' =
     (Some (ProductNotFoundError ''Tablet''), sc_heap (main_setup 10 1)) \<and>
   length (products_of (snd (remove_product (sc_heap (main_setup 10 1)) 7 ''Tablet'')) 7) = 2"
proof -
  let ?h = "sc_heap (main_setup 10 1)"
  have xs: "products_of ?h 7 = [8, 9]"
    by (simp add: main_setup_eval products_of_def)
  have n8: "product_name (product_objs ?h 8) = ''Laptop''"
    and n9: "product_name (product_objs ?h 9) = ''Phone''"
    by (simp_all add: main_setup_eval)
  have "0 < length (products_of ?h 7) \<and>
        product_name (product_objs ?h (products_of ?h 7 ! 0)) = ''Laptop'' \<and>
        (\<forall>j<0. product_name (product_objs ?h (products_of ?h 7 ! j)) \<noteq> ''Laptop'')"
    by (simp add: xs n8)
  moreover have "\<forall>r\<in>set (products_of ?h 7). product_name (product_objs ?h r) \<noteq> ''Tablet''"
    by (simp add: xs n8 n9)
  ultimately show ?thesis
    using remove_product_spec [of ?h 7 "''Laptop''"] remove_product_spec [of ?h 7 "''Tablet''"]
    by (auto simp: xs)
qed

text \<open>
  C9, as amended. \<open>get_products\<close> returns the reference to the Warehouse's own list
  object. Its content is the current sequence of Products: empty for a new Warehouse,
  extended at the end by \<open>add_product\<close>, left alone by \<open>update_product\<close> (which changes
  the Product object), and without the first match after \<open>remove_product\<close>. The returned
  list is not a copy: appending to it is the same change of the heap as \<open>add_product\<close>.
\<close>

theorem get_products_view:
  "list_objs h (get_products h w) = products_of h w \<and>
   products_of (snd (Warehouse_init h location)) (fst (Warehouse_init h location)) = [] \<and>
   get_products (add_product h w p) w = get_products h w \<and>
   products_of (add_product h w p) w = products_of h w @ [p] \<and>
   products_of (snd (update_product h w name new_price)) w = products_of h w \<and>
   products_of (snd (remove_product h w name)) w =
     (case first_named h name (products_of h w) of
        None \<Rightarrow> products_of h w
      | Some r \<Rightarrow> remove1 r (products_of h w)) \<and>
   list_append h (get_products h w) p = add_product h w p \<and>
   products_of (list_append h (get_products h w) p) w = products_of h w @ [p]"
proof (intro conjI)
  show "list_objs h (get_products h w) = products_of h w"
    by (simp add: get_products_def products_of_def)
  show "products_of (snd (Warehouse_init h location)) (fst (Warehouse_init h location)) = []"
    by (simp add: Warehouse_init_def new_list_def products_of_def Let_def)
  show "get_products (add_product h w p) w = get_products h w"
    by (simp add: get_products_def add_product_def list_append_def)
  show "products_of (add_product h w p) w = products_of h w @ [p]"
    by (simp add: products_of_def add_product_def list_append_def)
  show "products_of (snd (update_product h w name new_price)) w = products_of h w"
    by (simp add: update_product_def update_product_loop_find products_of_def
          split: option.split)
  show "products_of (snd (remove_product h w name)) w =
     (case first_named h name (products_of h w) of
        None \<Rightarrow> products_of h w
      | Some r \<Rightarrow> remove1 r (products_of h w))"
    by (auto simp: remove_product_def remove_product_loop_find products_of_def
          list_remove_def dest: first_named_in split: option.split)
  show "list_append h (get_products h w) p = add_product h w p"
    by (simp add: get_products_def add_product_def)
  show "products_of (list_append h (get_products h w) p) w = products_of h w @ [p]"
    by (simp add: products_of_def get_products_def list_append_def)
qed

text \<open>
  Mutation through the returned list is not prevented: after the caller appends the
  phone to the list that \<open>get_products\<close> returned, the Warehouse's own sequence of
  Products has changed.
\<close>

theorem get_products_view_counterexample:
  "products_of (sc_heap (main_setup 10 1)) 7 = [8, 9] \<and>
   products_of
     (list_append (sc_heap (main_setup 10 1)) (get_products (sc_heap (main_setup 10 1)) 7) 9) 7
     = [8, 9, 9]"
  by (simp add: main_setup_eval products_of_def get_products_def list_append_def)

section \<open>The error taxonomy\<close>

lemma list_remove_not_InvalidOrderError:
  "fst (list_remove h l x) \<noteq> Some (InvalidOrderError m)"
  by (simp add: list_remove_def)

lemma update_product_loop_not_InvalidOrderError:
  "fst (update_product_loop h xs name x) \<noteq> Some (InvalidOrderError m)"
  by (induction xs) simp_all

lemma remove_product_loop_not_InvalidOrderError:
  "fst (remove_product_loop h l xs name) \<noteq> Some (InvalidOrderError m)"
  by (induction xs) (simp_all add: list_remove_not_InvalidOrderError)

lemma process_order_not_InvalidOrderError:
  "fst (process_order h self) \<noteq> Some (InvalidOrderError m)"
  by (simp add: process_order_def Let_def)

lemma exec_not_InvalidOrderError:
  "fst (exec sp h c) \<noteq> Some (InvalidOrderError m)"
  by (cases c)
    (simp_all add: update_product_def remove_product_def
       update_product_loop_not_InvalidOrderError remove_product_loop_not_InvalidOrderError
       process_order_not_InvalidOrderError)

text \<open>
  The \<open>ValueError\<close> of \<open>list.remove\<close> cannot occur either: \<open>remove_product\<close> removes a
  reference it has just read from the list. Every raise is a \<open>StoreError\<close>.
\<close>

lemma remove_product_raises_StoreError:
  "fst (remove_product h self name) = Some e \<Longrightarrow> is_StoreError e"
  by (auto simp: remove_product_def remove_product_loop_find list_remove_def
        dest: first_named_in split: option.splits)

lemma update_product_raises_StoreError:
  "fst (update_product h self name x) = Some e \<Longrightarrow> is_StoreError e"
  by (auto simp: update_product_def update_product_loop_find split: option.splits)

lemma exec_raises_StoreError:
  "fst (exec sp h c) = Some e \<Longrightarrow> is_StoreError e"
  by (cases c)
    (auto simp: process_order_def Let_def split: if_splits
       dest: remove_product_raises_StoreError update_product_raises_StoreError)

text \<open>
  C8. Whatever sequence of constructor and method calls a caller performs, on whatever
  heap and with whatever arguments, it does not end in \<open>InvalidOrderError\<close>: no operation
  raises it.
\<close>

theorem InvalidOrderError_never_raised:
  "fst (run sp h cs) \<noteq> Some (InvalidOrderError m)"
proof (induction cs arbitrary: h)
  case Nil
  show ?case by simp
next
  case (Cons c cs)
  obtain e h' where r: "exec sp h c = (e, h')"
    by (cases "exec sp h c")
  show ?case
  proof (cases e)
    case None
    with r Cons.IH [of h'] show ?thesis by simp
  next
    case (Some err)
    have "fst (exec sp h c) \<noteq> Some (InvalidOrderError m)"
      by (rule exec_not_InvalidOrderError)
    with r Some show ?thesis by simp
  qed
qed

section \<open>Export to XML\<close>






subsection \<open>Decimal text\<close>

















section \<open>Export to JSON\<close>

text \<open>
  C7. The tree that \<open>save_to_json\<close> writes has exactly the keys \<open>name\<close>, \<open>warehouses\<close>,
  \<open>customers\<close> and \<open>orders\<close>. The array \<open>warehouses\<close> is as long as the Store's list of
  Warehouses; its entry \<open>i\<close> has exactly the keys \<open>location\<close>, \<open>products\<close> and \<open>workers\<close>,
  its \<open>products\<close> array is as long as the Products of Warehouse \<open>i\<close> and entry \<open>j\<close> holds
  the name, price and quantity of Product \<open>j\<close>, and likewise name and role for the
  Workers. A Customer is written as name and email. An Order is written as the name of
  its Customer, the name of its Product, and its quantity.
\<close>

theorem save_to_json_spec:
  "json_keys (Some (save_to_json_data h self)) =
     Some [''name'', ''warehouses'', ''customers'', ''orders''] \<and>
   json_at (save_to_json_data h self) [Key ''name''] =
     Some (JString (estore_name (estore_objs h self))) \<and>
   json_len (json_at (save_to_json_data h self) [Key ''warehouses'']) =
     Some (length (list_objs h (estore_warehouses (estore_objs h self)))) \<and>
   (\<forall>i<length (list_objs h (estore_warehouses (estore_objs h self))).
      json_keys (json_at (save_to_json_data h self) [Key ''warehouses'', Idx i]) =
        Some [''location'', ''products'', ''workers''] \<and>
      json_at (save_to_json_data h self) [Key ''warehouses'', Idx i, Key ''location''] =
        Some (JString (warehouse_location
                (warehouse_objs h (list_objs h (estore_warehouses (estore_objs h self)) ! i)))) \<and>
      json_len (json_at (save_to_json_data h self) [Key ''warehouses'', Idx i, Key ''products'']) =
        Some (length (products_of h (list_objs h (estore_warehouses (estore_objs h self)) ! i))) \<and>
      (\<forall>j<length (products_of h (list_objs h (estore_warehouses (estore_objs h self)) ! i)).
         json_at (save_to_json_data h self)
           [Key ''warehouses'', Idx i, Key ''products'', Idx j] =
         Some (JObject
           [(''name'', JString (product_name (product_objs h
               (products_of h (list_objs h (estore_warehouses (estore_objs h self)) ! i) ! j)))),
            (''price'', JFloat (product_price (product_objs h
               (products_of h (list_objs h (estore_warehouses (estore_objs h self)) ! i) ! j)))),
            (''quantity'', JInt (product_quantity (product_objs h
               (products_of h (list_objs h (estore_warehouses (estore_objs h self)) ! i) ! j))))])) \<and>
      json_len (json_at (save_to_json_data h self) [Key ''warehouses'', Idx i, Key ''workers'']) =
        Some (length (list_objs h (warehouse_workers
                (warehouse_objs h (list_objs h (estore_warehouses (estore_objs h self)) ! i))))) \<and>
      (\<forall>k<length (list_objs h (warehouse_workers
                (warehouse_objs h (list_objs h (estore_warehouses (estore_objs h self)) ! i)))).
         json_at (save_to_json_data h self)
           [Key ''warehouses'', Idx i, Key ''workers'', Idx k] =
         Some (JObject
           [(''name'', JString (worker_name (worker_objs h
               (list_objs h (warehouse_workers (warehouse_objs h
                  (list_objs h (estore_warehouses (estore_objs h self)) ! i))) ! k)))),
            (''role'', JString (worker_role (worker_objs h
               (list_objs h (warehouse_workers (warehouse_objs h
                  (list_objs h (estore_warehouses (estore_objs h self)) ! i))) ! k))))]))) \<and>
   json_len (json_at (save_to_json_data h self) [Key ''customers'']) =
     Some (length (list_objs h (estore_customers (estore_objs h self)))) \<and>
   (\<forall>i<length (list_objs h (estore_customers (estore_objs h self))).
      json_at (save_to_json_data h self) [Key ''customers'', Idx i] =
      Some (JObject
        [(''name'', JString (customer_name (customer_objs h
            (list_objs h (estore_customers (estore_objs h self)) ! i)))),
         (''email'', JString (customer_email (customer_objs h
            (list_objs h (estore_customers (estore_objs h self)) ! i))))])) \<and>
   json_len (json_at (save_to_json_data h self) [Key ''orders'']) =
     Some (length (list_objs h (estore_orders (estore_objs h self)))) \<and>
   (\<forall>i<length (list_objs h (estore_orders (estore_objs h self))).
      json_at (save_to_json_data h self) [Key ''orders'', Idx i] =
      Some (JObject
        [(''customer'', JString (customer_name (customer_objs h (order_customer (order_objs h
            (list_objs h (estore_orders (estore_objs h self)) ! i)))))),
         (''product'', JString (product_name (product_objs h (order_product (order_objs h
            (list_objs h (estore_orders (estore_objs h self)) ! i)))))),
         (''quantity'', JInt (order_quantity (order_objs h
            (list_objs h (estore_orders (estore_objs h self)) ! i))))])) \<and>
   files (save_to_json h self filename) filename = Some (JsonDoc (save_to_json_data h self))"
  by (simp add: save_to_json_data_def products_of_def save_to_json_def)

theorem save_to_json_spec_witness:
  "json_len (json_at (save_to_json_data (sc_heap (main_setup 10 1)) 4) [Key ''warehouses'']) =
     Some 1 \<and>
   json_len (json_at (save_to_json_data (sc_heap (main_setup 10 1)) 4)
               [Key ''warehouses'', Idx 0, Key ''products'']) = Some 2 \<and>
   json_at (save_to_json_data (sc_heap (main_setup 10 1)) 4)
     [Key ''warehouses'', Idx 0, Key ''products'', Idx 1] =
     Some (JObject [(''name'', JString ''Phone''), (''price'', JFloat 45000),
                    (''quantity'', JInt 15)]) \<and>
   json_at (save_to_json_data (sc_heap (main_setup 10 1)) 4)
     [Key ''warehouses'', Idx 0, Key ''workers'', Idx 0] =
     Some (JObject [(''name'', JString ''Ivan''), (''role'', JString ''warehouse manager'')]) \<and>
   json_at (save_to_json_data (sc_heap (main_setup 10 1)) 4) [Key ''customers'', Idx 0] =
     Some (JObject [(''name'', JString ''Petr''), (''email'', JString ''petr@mail.ru'')]) \<and>
   json_at (save_to_json_data (sc_heap (main_setup 10 1)) 4) [Key ''orders'', Idx 0] =
     Some (JObject [(''customer'', JString ''Petr''), (''product'', JString ''Laptop''),
                    (''quantity'', JInt 1)])"
proof -
  let ?h = "sc_heap (main_setup 10 1)"
  have e: "estore_objs ?h 4 =
      \<lparr>estore_name = ''TechStore'', estore_warehouses = 0, estore_customers = 1,
         estore_orders = 2, estore_workers = 3\<rparr>"
    and l: "list_objs ?h 0 = [7]" "list_objs ?h (Suc 0) = [11]" "list_objs ?h 2 = [12]"
      "list_objs ?h 5 = [8, 9]" "list_objs ?h 6 = [10]"
    and w: "warehouse_objs ?h 7 =
      \<lparr>warehouse_location = ''Moscow'', warehouse_products = 5, warehouse_workers = 6\<rparr>"
    and p: "product_objs ?h 8 =
      \<lparr>product_name = ''Laptop'', product_price = 75000, product_quantity = 10\<rparr>"
      "product_objs ?h 9 =
      \<lparr>product_name = ''Phone'', product_price = 45000, product_quantity = 15\<rparr>"
    and c: "customer_objs ?h 11 = \<lparr>customer_name = ''Petr'', customer_email = ''petr@mail.ru''\<rparr>"
    and wr: "worker_objs ?h 10 = \<lparr>worker_name = ''Ivan'', worker_role = ''warehouse manager''\<rparr>"
    and ord: "order_objs ?h 12 = \<lparr>order_customer = 11, order_product = 8, order_quantity = 1\<rparr>"
    by (simp_all add: main_setup_eval)
  from save_to_json_spec [of ?h 4 "''estore_data.json''"] show ?thesis
    by (simp add: e l w p c wr ord products_of_def All_less_Suc)
qed

end
